theory Spec2Isabelle
  imports Main "HOL-Library.Sublist" "HOL-Library.AList"
begin

section \<open>Python 2 byte strings\<close>

text \<open>
  The plugin runs on Python 2 (Volatility 2): a \<^verbatim>\<open>str\<close> is a sequence of bytes, which is
  what \<^typ>\<open>string\<close> is.  A backslash cannot be written inside a string literal, so it
  is spelled \<open>bsl\<close>.
\<close>

abbreviation bsl :: string where
  "bsl \<equiv> [CHR 0x5C]"

abbreviation NUL :: char where
  "NUL \<equiv> CHR 0x00"

abbreviation squote :: char where
  "squote \<equiv> CHR 0x27"

abbreviation dquote :: char where
  "dquote \<equiv> CHR 0x22"

definition is_upper :: "char \<Rightarrow> bool" where
  "is_upper c = (65 \<le> (of_char c :: nat) \<and> (of_char c :: nat) \<le> 90)"

definition is_lower :: "char \<Rightarrow> bool" where
  "is_lower c = (97 \<le> (of_char c :: nat) \<and> (of_char c :: nat) \<le> 122)"

text \<open>\<^verbatim>\<open>str.lower()\<close> and \<^verbatim>\<open>str.upper()\<close> in the C locale: only the ASCII letters move.\<close>

definition lower_char :: "char \<Rightarrow> char" where
  "lower_char c = (if is_upper c then char_of ((of_char c :: nat) + 32) else c)"

definition upper_char :: "char \<Rightarrow> char" where
  "upper_char c = (if is_lower c then char_of ((of_char c :: nat) - 32) else c)"

definition str_lower :: "string \<Rightarrow> string" where
  "str_lower s = map lower_char s"

definition str_upper :: "string \<Rightarrow> string" where
  "str_upper s = map upper_char s"

text \<open>
  \<^verbatim>\<open>s.replace(old, new)\<close>: the occurrences of \<open>old\<close> are found from the left and do not
  overlap.  With an empty \<open>old\<close>, \<open>new\<close> is put before every character and at the end.
\<close>

function str_replace :: "string \<Rightarrow> string \<Rightarrow> string \<Rightarrow> string" where
  "str_replace old new [] = (if old = [] then new else [])"
| "str_replace old new (c # cs) =
     (if old = [] then new @ c # str_replace old new cs
      else if prefix old (c # cs) then new @ str_replace old new (drop (length old) (c # cs))
      else c # str_replace old new cs)"
  by pat_completeness auto
termination
  by (relation "measure (\<lambda>(old, new, s). length s)") auto

text \<open>\<^verbatim>\<open>sub in s\<close> on strings: \<open>sub\<close> occurs in \<open>s\<close> as a contiguous piece.\<close>

fun str_in :: "string \<Rightarrow> string \<Rightarrow> bool" where
  "str_in sub [] = (sub = [])"
| "str_in sub (c # cs) = (prefix sub (c # cs) \<or> str_in sub cs)"

section \<open>The path normalizer\<close>

text \<open>\<^verbatim>\<open>sanitize_paths\<close> (autoruns.py, lines 92 to 101).\<close>

definition sanitize_paths :: "string \<Rightarrow> string" where
  "sanitize_paths path =
     (let path = str_lower path;
          path = str_replace (''%systemroot%'' @ bsl) [] path;
          path = str_replace (bsl @ ''systemroot'' @ bsl) [] path;
          path = str_replace ''%windir%'' [] path;
          path = str_replace (bsl @ ''??'' @ bsl) [] path;
          path = str_replace [NUL] [] path;
          path = str_replace [squote] [] (str_replace [dquote] [] path)
      in path)"


section \<open>More of Python's built-in operations\<close>

datatype py_error = ValueError | KeyError | UnboundLocalError | AttributeError

text \<open>\<^verbatim>\<open>sep.join(xs)\<close>.\<close>

fun str_join :: "string \<Rightarrow> string list \<Rightarrow> string" where
  "str_join sep [] = []"
| "str_join sep [x] = x"
| "str_join sep (x # y # ys) = x @ sep @ str_join sep (y # ys)"

text \<open>
  \<^verbatim>\<open>s.split(d)\<close> for a separator of one character, which is what every call in the
  plugin passes: the pieces between the separators, empty pieces kept, so the result is
  never the empty list.
\<close>

fun str_split :: "char \<Rightarrow> string \<Rightarrow> string list" where
  "str_split d [] = [[]]"
| "str_split d (c # cs) =
     (if c = d then [] # str_split d cs
      else (case str_split d cs of r # rs \<Rightarrow> (c # r) # rs | [] \<Rightarrow> [[c]]))"

text \<open>\<^verbatim>\<open>x or default\<close> on an optional string: an absent and an empty one are both false.\<close>

definition str_or :: "string option \<Rightarrow> string \<Rightarrow> string" where
  "str_or x d = (case x of None \<Rightarrow> d | Some s \<Rightarrow> if s = [] then d else s)"

text \<open>\<^verbatim>\<open>d.get(k, default)\<close> on a dictionary kept as an association list.\<close>

definition dict_get :: "('k \<times> 'v) list \<Rightarrow> 'k \<Rightarrow> 'v \<Rightarrow> 'v" where
  "dict_get d k dflt = (case map_of d k of None \<Rightarrow> dflt | Some v \<Rightarrow> v)"

text \<open>Digits: \<^verbatim>\<open>str(n)\<close> of an integer, and the lower-case hexadecimal of the format codes.\<close>

definition digit_char :: "nat \<Rightarrow> char" where
  "digit_char n = ''0123456789abcdef'' ! n"

function dec_of_nat :: "nat \<Rightarrow> string" where
  "dec_of_nat n = (if n < 10 then [digit_char n] else dec_of_nat (n div 10) @ [digit_char (n mod 10)])"
  by pat_completeness auto
termination
  by (relation "measure id") auto

function hex_of_nat :: "nat \<Rightarrow> string" where
  "hex_of_nat n = (if n < 16 then [digit_char n] else hex_of_nat (n div 16) @ [digit_char (n mod 16)])"
  by pat_completeness auto
termination
  by (relation "measure id") auto

definition str_of_int :: "int \<Rightarrow> string" where
  "str_of_int i = (if i < 0 then ''-'' @ dec_of_nat (nat (- i)) else dec_of_nat (nat i))"

definition zfill :: "nat \<Rightarrow> string \<Rightarrow> string" where
  "zfill w s = replicate (w - length s) (CHR ''0'') @ s"

definition ljust :: "nat \<Rightarrow> string \<Rightarrow> string" where
  "ljust w s = s @ replicate (w - length s) (CHR '' '')"

text \<open>
  \<^verbatim>\<open>int(s)\<close> of a Python 2 byte string, base 10: white space, an optional sign, white
  space again (Python 2 allows it after the sign), at least one decimal digit, white
  space; anything else, a NUL byte included, raises \<^verbatim>\<open>ValueError\<close>.
\<close>

definition is_space :: "char \<Rightarrow> bool" where
  "is_space c = (c \<in> set [CHR '' '', CHR 0x09, CHR 0x0A, CHR 0x0B, CHR 0x0C, CHR 0x0D])"

definition is_digit :: "char \<Rightarrow> bool" where
  "is_digit c = (48 \<le> (of_char c :: nat) \<and> (of_char c :: nat) \<le> 57)"

definition digits_value :: "string \<Rightarrow> nat" where
  "digits_value ds = foldl (\<lambda>a c. 10 * a + ((of_char c :: nat) - 48)) 0 ds"

definition py_int :: "string \<Rightarrow> py_error + int" where
  "py_int s =
     (let s1 = dropWhile is_space s;
          neg = (s1 \<noteq> [] \<and> hd s1 = CHR ''-'');
          s2 = (if s1 \<noteq> [] \<and> (hd s1 = CHR ''-'' \<or> hd s1 = CHR ''+'') then tl s1 else s1);
          s3 = dropWhile is_space s2;
          ds = takeWhile is_digit s3;
          rest = dropWhile is_space (dropWhile is_digit s3)
      in if ds = [] \<or> rest \<noteq> [] then Inl ValueError
         else Inr (if neg then - int (digits_value ds) else int (digits_value ds)))"

text \<open>
  \<^verbatim>\<open>u.encode("ascii", "backslashreplace")\<close> of a unicode string, given by its code
  points: what is not ASCII becomes an escape of two, four or eight hexadecimal digits.
\<close>

type_synonym ustring = "nat list"

definition backslashreplace :: "nat \<Rightarrow> string" where
  "backslashreplace cp =
     (if cp < 128 then [char_of cp]
      else if cp < 256 then bsl @ ''x'' @ zfill 2 (hex_of_nat cp)
      else if cp < 65536 then bsl @ ''u'' @ zfill 4 (hex_of_nat cp)
      else bsl @ ''U'' @ zfill 8 (hex_of_nat cp))"

definition encode_ascii :: "ustring \<Rightarrow> string" where
  "encode_ascii u = concat (map backslashreplace u)"

text \<open>
  \<^verbatim>\<open>str(xs)\<close> of a list of byte strings: the \<^verbatim>\<open>repr\<close> of each, between brackets.  The
  \<^verbatim>\<open>repr\<close> quotes with \<open>'\<close>, or with \<open>"\<close> when the string has a \<open>'\<close> and no \<open>"\<close>.
\<close>

definition repr_char :: "char \<Rightarrow> char \<Rightarrow> string" where
  "repr_char q c =
     (if c = q \<or> [c] = bsl then bsl @ [c]
      else if c = CHR 0x09 then bsl @ ''t''
      else if c = CHR 0x0A then bsl @ ''n''
      else if c = CHR 0x0D then bsl @ ''r''
      else if (of_char c :: nat) < 32 \<or> 127 \<le> (of_char c :: nat)
        then bsl @ ''x'' @ zfill 2 (hex_of_nat (of_char c))
      else [c])"

definition py_repr :: "string \<Rightarrow> string" where
  "py_repr s =
     (let q = (if squote \<in> set s \<and> dquote \<notin> set s then dquote else squote)
      in [q] @ concat (map (repr_char q) s) @ [q])"

definition str_of_list :: "string list \<Rightarrow> string" where
  "str_of_list xs = ''['' @ str_join '', '' (map py_repr xs) @ '']''"

section \<open>The registry and the process list, as the plugin reads them\<close>

text \<open>
  What \<^verbatim>\<open>rawreg.value_data\<close> returns for a value, by registry type: decoded text, a list
  of decoded texts, a number, or bytes.  For bytes the payload is the rows that
  \<^verbatim>\<open>utils.Hexdump\<close> yields for them (offset, hexadecimal text, printable characters): the
  plugin only formats those rows.
\<close>

type_synonym hexrow = "nat \<times> string \<times> string list"

datatype reg_data =
    REG_NONE "hexrow list"
  | REG_BINARY "hexrow list"
  | REG_SZ ustring
  | REG_EXPAND_SZ ustring
  | REG_LINK ustring
  | REG_MULTI_SZ "ustring list"
  | REG_DWORD int

datatype reg_value = RegValue (value_name: string) (value_data: reg_data)

datatype reg_key =
  RegKey (key_name: string) (LastWriteTime: nat) (key_values: "reg_value list")
    (key_subkeys: "reg_key list")

record ldr_module =
  FullDllName :: "string option"

record peb =
  CommandLine :: "string option"

record task =
  UniqueProcessId :: int
  Peb :: "peb option"
  load_modules :: "ldr_module list"

text \<open>
  \<^verbatim>\<open>self.process_dict\<close>: process id to the task and its loaded modules.  A Python 2
  dictionary enumerates its keys in an order of its own; the association list fixes one,
  and an assignment to a key keeps the key's place.
\<close>

type_synonym process_dict = "(int \<times> task \<times> ldr_module list) list"

section \<open>The plugin\<close>

subsection \<open>Tables\<close>

definition WINLOGON_NOTIFICATION_EVENTS :: "string list" where
  "WINLOGON_NOTIFICATION_EVENTS =
     [''Lock'', ''Logoff'', ''Logon'', ''Shutdown'', ''StartScreenSaver'', ''StartShell'',
      ''Startup'', ''StopScreenSaver'', ''Unlock'']"

definition service_types :: "(int \<times> string) list" where
  "service_types =
     [(0x001, ''Kernel driver''),
      (0x002, ''File system driver''),
      (0x004, ''Argumetns for adapter''),
      (0x008, ''File system driver''),
      (0x010, ''Own_Process''),
      (0x020, ''Share_Process''),
      (0x100, ''Interactive''),
      (0x110, ''Interactive''),
      (0x120, ''Share_process Interactive''),
      (- 1, ''Unknown'')]"

definition service_startup :: "(int \<times> string) list" where
  "service_startup =
     [(0x00, ''Boot Start''),
      (0x01, ''System Start''),
      (0x02, ''Auto Start''),
      (0x03, ''Manual''),
      (0x04, ''Disabled''),
      (- 1, ''Unknown'')]"

subsection \<open>The process inventory and the PID correlator\<close>

text \<open>\<^verbatim>\<open>get_dll_list\<close> (lines 122 to 128): only a task with a \<^verbatim>\<open>Peb\<close> is recorded.\<close>

definition get_dll_list :: "task list \<Rightarrow> process_dict" where
  "get_dll_list tasks =
     fold (\<lambda>task process_dict.
            if Peb task \<noteq> None
            then AList.update (UniqueProcessId task) (task, load_modules task) process_dict
            else process_dict)
       tasks []"

text \<open>
  \<^verbatim>\<open>find_pids_for_imagepath\<close> (lines 130 to 148).  \<open>pids_of_process\<close> is the body of the
  loop over the processes: the test of the command line, then the loop over the loaded
  modules, each appending the process id.  \<^verbatim>\<open>list(set(pids))\<close> keeps one copy of each
  id, in an order that Python does not fix; \<open>remdups\<close> keeps one copy of each too.
\<close>

definition pids_of_process :: "string \<Rightarrow> int \<times> task \<times> ldr_module list \<Rightarrow> int list" where
  "pids_of_process module entry =
     (case entry of (pid, task, dlls) \<Rightarrow>
        (case Peb task of
           None \<Rightarrow> []
         | Some peb \<Rightarrow>
             if str_in (str_lower module)
                  (sanitize_paths (str_lower (str_or (CommandLine peb) ''[no cmdline]'')))
             then [pid] else [])
        @ concat (map (\<lambda>dll.
             if str_in (str_lower module)
                  (sanitize_paths (str_lower (str_or (FullDllName dll) ''[no dllname]'')))
             then [pid] else []) dlls))"

definition find_pids_for_imagepath :: "process_dict \<Rightarrow> string \<Rightarrow> int list" where
  "find_pids_for_imagepath process_dict module =
     (let module = sanitize_paths module;
          pids = (if module \<noteq> [] then concat (map (pids_of_process module) process_dict)
                  else [])
      in remdups pids)"

text \<open>
  The same call with an argument that may be \<^verbatim>\<open>None\<close>.  Line 134 passes the argument to
  \<^verbatim>\<open>sanitize_paths\<close>, whose first statement \<^verbatim>\<open>path.lower()\<close> (line 94) raises
  \<^verbatim>\<open>AttributeError\<close> on \<^verbatim>\<open>None\<close>, before the test of line 135 is reached.
\<close>

definition find_pids_for_imagepath_arg ::
    "process_dict \<Rightarrow> string option \<Rightarrow> py_error + int list" where
  "find_pids_for_imagepath_arg process_dict module =
     (case module of
        None \<Rightarrow> Inl AttributeError
      | Some m \<Rightarrow> Inr (find_pids_for_imagepath process_dict m))"

subsection \<open>Reading the values of a key\<close>

text \<open>
  \<^verbatim>\<open>dict_for_key\<close> (lines 156 to 171): the name of each value to the \<^verbatim>\<open>str\<close> of its
  data.  A later value of the same name overwrites the earlier one.
\<close>

definition format_hexrow :: "hexrow \<Rightarrow> string" where
  "format_hexrow row =
     (case row of (o', h, c) \<Rightarrow>
        ''0x'' @ zfill 8 (hex_of_nat o') @ ''  '' @ ljust 48 h @ ''  '' @ concat c)"

fun str_of_data :: "reg_data \<Rightarrow> string" where
  "str_of_data (REG_BINARY rows) = [CHR 0x0A] @ str_join [CHR 0x0A] (map format_hexrow rows)"
| "str_of_data (REG_NONE rows) = [CHR 0x0A] @ str_join [CHR 0x0A] (map format_hexrow rows)"
| "str_of_data (REG_SZ u) = encode_ascii u"
| "str_of_data (REG_EXPAND_SZ u) = encode_ascii u"
| "str_of_data (REG_LINK u) = encode_ascii u"
| "str_of_data (REG_MULTI_SZ us) = str_of_list (map encode_ascii us)"
| "str_of_data (REG_DWORD n) = str_of_int n"

definition dict_for_key :: "reg_key \<Rightarrow> (string \<times> string) list" where
  "dict_for_key key =
     fold (\<lambda>v valdict. AList.update (value_name v) (str_of_data (value_data v)) valdict)
       (key_values key) []"

subsection \<open>AppInit DLLs\<close>

text \<open>
  \<^verbatim>\<open>get_appinit_dlls\<close> (lines 173 to 182), from the string that \<^verbatim>\<open>reg_get_value\<close>
  returns for \<^verbatim>\<open>AppInit_DLLs\<close>.  \<open>None\<close> is Python's \<^verbatim>\<open>None\<close>.
\<close>

definition get_appinit_dlls :: "string \<Rightarrow> string list option" where
  "get_appinit_dlls appinit_values =
     (let appinit_dlls = str_split (CHR '' '') (str_replace [NUL] [] appinit_values)
      in if length appinit_dlls > 0 then Some appinit_dlls else None)"

subsection \<open>Winlogon notification packages\<close>

record notify_entry =
  notify_dll :: string
  notify_events :: "(string \<times> string) list"
  notify_timestamp :: nat
  notify_pids :: "int list"

text \<open>
  \<^verbatim>\<open>parse_winlogon_registration_key\<close> (lines 213 to 223).  \<open>find_dllname\<close> is the loop
  that assigns \<^verbatim>\<open>dllname\<close>: \<open>None\<close> while the name is unbound.  Reading the unbound name
  raises \<^verbatim>\<open>UnboundLocalError\<close>.
\<close>

definition find_dllname :: "(string \<times> string) list \<Rightarrow> string option" where
  "find_dllname k =
     foldl (\<lambda>dllname (dictkey, v). if str_lower dictkey = ''dllname'' then Some v else dllname)
       None k"

definition parse_winlogon_registration_key ::
    "process_dict \<Rightarrow> reg_key \<Rightarrow> py_error + notify_entry" where
  "parse_winlogon_registration_key process_dict key =
     (let k = dict_for_key key;
          events = concat (map (\<lambda>evt. case map_of k evt of
                                         None \<Rightarrow> []
                                       | Some v \<Rightarrow> [(evt, str_replace [NUL] [] v)])
                     WINLOGON_NOTIFICATION_EVENTS)
      in case find_dllname k of
           None \<Rightarrow> Inl UnboundLocalError
         | Some dllname \<Rightarrow>
             let pids = find_pids_for_imagepath process_dict dllname
             in Inr \<lparr>notify_dll = str_replace [NUL] [] dllname, notify_events = events,
                     notify_timestamp = LastWriteTime key, notify_pids = pids\<rparr>)"

subsection \<open>Services\<close>

record service_entry =
  svc_name :: string
  svc_timestamp :: nat
  svc_display_name :: string
  svc_startup :: string
  svc_type :: string
  svc_image_path :: string
  svc_entry :: "string option"
  svc_pids :: "int list"

text \<open>\<^verbatim>\<open>int(d.get(k, -1))\<close>: the default is an integer already, a value is parsed.\<close>

definition int_of_field :: "(string \<times> string) list \<Rightarrow> string \<Rightarrow> py_error + int" where
  "int_of_field d k = (case map_of d k of None \<Rightarrow> Inr (- 1) | Some s \<Rightarrow> py_int s)"

text \<open>
  Lines 236 to 250: the first sub-key named \<^verbatim>\<open>Parameters\<close>, when the image path has the
  marker.  The result is \<^verbatim>\<open>parameters\<close> and \<^verbatim>\<open>timestamp\<close> after the loop.
\<close>

definition svchost_parameters ::
    "reg_key \<Rightarrow> string \<Rightarrow> (string \<times> string) list option \<times> nat" where
  "svchost_parameters service_key image_path =
     (if str_in ''svchost.exe -k'' image_path
      then (case find (\<lambda>sub. key_name sub = ''Parameters'') (key_subkeys service_key) of
              None \<Rightarrow> (None, LastWriteTime service_key)
            | Some sub \<Rightarrow> (Some (dict_for_key sub), LastWriteTime sub))
      else (None, LastWriteTime service_key))"

definition service_dll_entry :: "(string \<times> string) list option \<Rightarrow> string option" where
  "service_dll_entry parameters =
     (case parameters of
        None \<Rightarrow> None
      | Some ps \<Rightarrow>
          if ps \<noteq> [] then
            (case map_of ps ''ServiceDll'' of
               None \<Rightarrow> None
             | Some dll \<Rightarrow>
                 let main = map_of ps ''ServiceMain'';
                     entry = (case main of
                                None \<Rightarrow> dll
                              | Some m \<Rightarrow> if m \<noteq> [] then dll @ '' ('' @ m @ '')'' else dll)
                 in Some (str_replace [NUL] [] entry))
          else None)"

text \<open>
  \<^verbatim>\<open>parse_service_key\<close> (lines 225 to 259).  \<open>Inr None\<close> is the return without a value
  for a service that does not start by itself; \<open>Inl\<close> is the exception raised by
  \<^verbatim>\<open>int\<close> or by the look-up in a table.  Where \<^verbatim>\<open>entry\<close> is set, \<^verbatim>\<open>parameters\<close> is a
  dictionary that has \<^verbatim>\<open>ServiceDll\<close>, so the other branches of that look-up are never
  taken.
\<close>

definition parse_service_key ::
    "process_dict \<Rightarrow> reg_key \<Rightarrow> py_error + service_entry option" where
  "parse_service_key process_dict service_key =
     (let service_dict = dict_for_key service_key;
          name = key_name service_key;
          display_name = str_replace [NUL] [] (dict_get service_dict ''DisplayName'' ''Unknown'')
      in case int_of_field service_dict ''Start'' of
           Inl e \<Rightarrow> Inl e
         | Inr startup \<Rightarrow>
        (case int_of_field service_dict ''Type'' of
           Inl e \<Rightarrow> Inl e
         | Inr type \<Rightarrow>
             let image_path = str_replace [NUL] [] (dict_get service_dict ''ImagePath'' ''Unknown'');
                 (parameters, timestamp) = svchost_parameters service_key image_path;
                 entry = service_dll_entry parameters
             in if startup \<in> set [0, 1, 2] then
                  let pids = (if entry \<noteq> None \<and> entry \<noteq> Some []
                              then find_pids_for_imagepath process_dict
                                     (case parameters of
                                        None \<Rightarrow> []
                                      | Some ps \<Rightarrow> dict_get ps ''ServiceDll'' [])
                              else find_pids_for_imagepath process_dict image_path)
                  in (case map_of service_startup startup of
                        None \<Rightarrow> Inl KeyError
                      | Some startup_label \<Rightarrow>
                     (case map_of service_types type of
                        None \<Rightarrow> Inl KeyError
                      | Some type_label \<Rightarrow>
                          Inr (Some \<lparr>svc_name = name, svc_timestamp = timestamp,
                                     svc_display_name = display_name,
                                     svc_startup = startup_label, svc_type = type_label,
                                     svc_image_path = image_path, svc_entry = entry,
                                     svc_pids = pids\<rparr>)))
                else Inr None))"

text \<open>
  \<^verbatim>\<open>get_services\<close> (lines 261 to 276), over the keys that \<^verbatim>\<open>reg_get_all_subkeys\<close>
  yields for the \<^verbatim>\<open>Services\<close> key of the current control set.  An exception of
  \<^verbatim>\<open>parse_service_key\<close> is not caught: it ends the loop.
\<close>

fun get_services :: "process_dict \<Rightarrow> bool \<Rightarrow> reg_key list \<Rightarrow> py_error + service_entry list" where
  "get_services process_dict VERBOSE [] = Inr []"
| "get_services process_dict VERBOSE (service # rest) =
     (case parse_service_key process_dict service of
        Inl e \<Rightarrow> Inl e
      | Inr parsed \<Rightarrow>
          (case get_services process_dict VERBOSE rest of
             Inl e \<Rightarrow> Inl e
           | Inr services \<Rightarrow>
               (case parsed of
                  None \<Rightarrow> Inr services
                | Some service \<Rightarrow>
                    if VERBOSE \<or> (\<not> VERBOSE \<and>
                         \<not> str_in ''system32'' (str_lower (svc_image_path service)) \<and>
                         svc_image_path service \<noteq> ''Unknown'')
                    then Inr (service # services)
                    else Inr services)))"

subsection \<open>Run keys\<close>

text \<open>
  \<^verbatim>\<open>parse_autoruns_key\<close> (lines 328 to 337): an entry is the name of the value, its data
  without NUL bytes, and the process ids found for the data.
\<close>

type_synonym run_entry = "string \<times> string \<times> int list"

definition parse_autoruns_key :: "process_dict \<Rightarrow> reg_key \<Rightarrow> run_entry list" where
  "parse_autoruns_key process_dict key =
     (let valdict = dict_for_key key
      in concat (map (\<lambda>(v, dat).
           if dat \<notin> set [[], [NUL]]
           then [(v, str_replace [NUL] [] dat, find_pids_for_imagepath process_dict dat)]
           else []) valdict))"

text \<open>
  The record that \<^verbatim>\<open>parse_service_key\<close> returns at line 259 for a service that starts by
  itself, given the two labels looked up in the tables.
\<close>

definition service_record ::
    "process_dict \<Rightarrow> reg_key \<Rightarrow> string \<Rightarrow> string \<Rightarrow> service_entry" where
  "service_record pd k slab tlab =
     (let image_path = str_replace [NUL] [] (dict_get (dict_for_key k) ''ImagePath'' ''Unknown'');
          pt = svchost_parameters k image_path;
          entry = service_dll_entry (fst pt)
      in \<lparr>svc_name = key_name k, svc_timestamp = snd pt,
          svc_display_name = str_replace [NUL] [] (dict_get (dict_for_key k) ''DisplayName'' ''Unknown''),
          svc_startup = slab, svc_type = tlab, svc_image_path = image_path, svc_entry = entry,
          svc_pids = (if entry \<noteq> None \<and> entry \<noteq> Some []
                      then find_pids_for_imagepath pd
                             (case fst pt of None \<Rightarrow> [] | Some ps \<Rightarrow> dict_get ps ''ServiceDll'' [])
                      else find_pids_for_imagepath pd image_path)\<rparr>)"

section \<open>Scenarios\<close>

text \<open>The Run key and the process of the round-trip scenario.\<close>

definition c1_data :: string where
  "c1_data = ''C:'' @ bsl @ ''Apps'' @ bsl @ ''app.exe --flag''"

definition c1_run_key :: reg_key where
  "c1_run_key = RegKey ''Run'' 0 [RegValue ''MyApp'' (REG_SZ (map of_char c1_data))] []"

definition c1_task :: "ldr_module list \<Rightarrow> task" where
  "c1_task lm =
     \<lparr>UniqueProcessId = 1234, Peb = Some \<lparr>CommandLine = Some c1_data\<rparr>, load_modules = lm\<rparr>"

text \<open>Service keys.\<close>

definition svchost_path :: string where
  "svchost_path =
     ''C:'' @ bsl @ ''Windows'' @ bsl @ ''System32'' @ bsl @ ''svchost.exe -k netsvcs''"

definition spooler_path :: string where
  "spooler_path = ''C:'' @ bsl @ ''Windows'' @ bsl @ ''System32'' @ bsl @ ''spoolsv.exe''"

definition spooler_key :: reg_key where
  "spooler_key = RegKey ''Spooler'' 100
     [RegValue ''Start'' (REG_DWORD 2), RegValue ''Type'' (REG_DWORD 32),
      RegValue ''ImagePath'' (REG_EXPAND_SZ (map of_char spooler_path))] []"

definition spooler_record :: service_entry where
  "spooler_record =
     \<lparr>svc_name = ''Spooler'', svc_timestamp = 100, svc_display_name = ''Unknown'',
      svc_startup = ''Auto Start'', svc_type = ''Share_Process'',
      svc_image_path = spooler_path, svc_entry = None, svc_pids = []\<rparr>"

definition malformed_key :: reg_key where
  "malformed_key = RegKey ''Broken'' 100 [RegValue ''Start'' (REG_SZ (map of_char ''auto''))] []"

definition manual_key :: reg_key where
  "manual_key = RegKey ''Manual'' 100
     [RegValue ''Start'' (REG_DWORD 3), RegValue ''Type'' (REG_DWORD 32),
      RegValue ''ImagePath'' (REG_EXPAND_SZ (map of_char spooler_path))] []"

definition no_type_key :: reg_key where
  "no_type_key = RegKey ''NoType'' 100
     [RegValue ''Start'' (REG_DWORD 2),
      RegValue ''ImagePath'' (REG_EXPAND_SZ (map of_char spooler_path))] []"

definition no_start_key :: reg_key where
  "no_start_key = RegKey ''NoStart'' 100 [RegValue ''Type'' (REG_DWORD 32)] []"

definition svchost_no_dll_key :: reg_key where
  "svchost_no_dll_key = RegKey ''Host'' 100
     [RegValue ''Start'' (REG_DWORD 2), RegValue ''Type'' (REG_DWORD 32),
      RegValue ''ImagePath'' (REG_EXPAND_SZ (map of_char svchost_path))]
     [RegKey ''Parameters'' 200 [RegValue ''Other'' (REG_DWORD 1)] []]"

definition svchost_dll_key :: reg_key where
  "svchost_dll_key = RegKey ''Host'' 100
     [RegValue ''Start'' (REG_DWORD 2), RegValue ''Type'' (REG_DWORD 32),
      RegValue ''ImagePath'' (REG_EXPAND_SZ (map of_char svchost_path))]
     [RegKey ''Parameters'' 200
        [RegValue ''ServiceDll'' (REG_EXPAND_SZ (map of_char ''themes.dll'')),
         RegValue ''ServiceMain'' (REG_SZ (map of_char ''Main''))] []]"

definition malformed_type_key :: reg_key where
  "malformed_type_key = RegKey ''BrokenType'' 100
     [RegValue ''Start'' (REG_DWORD 2), RegValue ''Type'' (REG_SZ (map of_char ''kernel''))] []"

text \<open>
  A second process, whose command line quotes the path of the first and adds a switch;
  and an inventory for the service keys: a service host, and a process that has loaded
  \<open>themes.dll\<close>.
\<close>

definition c8_task :: task where
  "c8_task =
     \<lparr>UniqueProcessId = 7,
      Peb = Some \<lparr>CommandLine = Some ([dquote] @ c1_data @ [dquote] @ '' /s'')\<rparr>,
      load_modules = []\<rparr>"

definition themes_module :: ldr_module where
  "themes_module =
     \<lparr>FullDllName = Some (''C:'' @ bsl @ ''Windows'' @ bsl @ ''System32'' @ bsl @ ''themes.dll'')\<rparr>"

definition c7_inventory :: process_dict where
  "c7_inventory =
     [(800, \<lparr>UniqueProcessId = 800, Peb = Some \<lparr>CommandLine = Some svchost_path\<rparr>,
              load_modules = []\<rparr>, []),
      (900, \<lparr>UniqueProcessId = 900,
              Peb = Some \<lparr>CommandLine = Some (''C:'' @ bsl @ ''Windows'' @ bsl @ ''explorer.exe'')\<rparr>,
              load_modules = [themes_module]\<rparr>, [themes_module])]"


definition notify_no_name_key :: reg_key where
  "notify_no_name_key = RegKey ''pkg'' 100
     [RegValue ''Logon'' (REG_SZ (map of_char ''OnLogon''))] []"

section \<open>Strings\<close>


lemma of_char_lt_256: "(of_char c :: nat) < 256"
proof -
  have "(of_char (char_of (of_char c :: nat)) :: nat) = of_char c mod 256"
    by (simp only: of_char_of)
  then have "(of_char c :: nat) = of_char c mod 256" by simp
  then show ?thesis by (metis mod_less_divisor zero_less_numeral)
qed

lemma not_upper_lower_char: "\<not> is_upper (lower_char c)"
  using of_char_lt_256 [of c]
  by (auto simp: lower_char_def is_upper_def of_char_of)

lemma lower_char_idem: "lower_char (lower_char c) = lower_char c"
  using not_upper_lower_char [of c] by (simp add: lower_char_def [of "lower_char c"])

lemma lower_upper_char: "lower_char (upper_char c) = lower_char c"
proof (cases "is_lower c")
  case True
  then have n: "97 \<le> (of_char c :: nat)" "(of_char c :: nat) \<le> 122"
    by (simp_all add: is_lower_def)
  then have u: "of_char (upper_char c) = (of_char c :: nat) - 32"
    using True by (simp add: upper_char_def of_char_of)
  have "\<not> is_upper c" using n by (simp add: is_upper_def)
  moreover have "is_upper (upper_char c)" using n u unfolding is_upper_def by arith
  ultimately show ?thesis using n u
    by (simp add: lower_char_def [of "upper_char c"] lower_char_def [of c])
next
  case False
  then show ?thesis by (simp add: upper_char_def)
qed

lemma str_lower_upper: "str_lower (str_upper s) = str_lower s"
  by (simp add: str_lower_def str_upper_def lower_upper_char)

lemma str_lower_idem: "str_lower (str_lower s) = str_lower s"
  by (simp add: str_lower_def lower_char_idem)

lemma str_lower_no_upper: "list_all (\<lambda>c. \<not> is_upper c) (str_lower s)"
  by (simp add: str_lower_def list_all_iff not_upper_lower_char)

lemma str_lower_id: "list_all (\<lambda>c. \<not> is_upper c) s \<Longrightarrow> str_lower s = s"
  by (induction s) (simp_all add: str_lower_def lower_char_def)

lemma set_str_replace_del: "old \<noteq> [] \<Longrightarrow> set (str_replace old [] s) \<subseteq> set s"
proof (induction old "[] :: string" s rule: str_replace.induct)
  case (1 old)
  then show ?case by simp
next
  case (2 old c cs)
  then show ?case
    using set_drop_subset [of "length old" "c # cs"] by (auto split: if_splits)
qed

lemma str_replace_single_del: "str_replace [c] [] s = filter (\<lambda>x. x \<noteq> c) s"
  by (induction s) auto

lemma str_in_iff_sublist: "str_in sub s = sublist sub s"
  by (induction s) (auto simp: sublist_Cons_right)

lemma str_replace_no_occ: "old \<noteq> [] \<Longrightarrow> \<not> str_in old s \<Longrightarrow> str_replace old new s = s"
  by (induction s) auto

lemma length_str_replace_del_le: "old \<noteq> [] \<Longrightarrow> length (str_replace old [] s) \<le> length s"
proof (induction old "[] :: string" s rule: str_replace.induct)
  case (1 old)
  then show ?case by simp
next
  case (2 old c cs)
  then show ?case by (auto split: if_splits)
qed

lemma length_str_replace_del_less:
  "old \<noteq> [] \<Longrightarrow> str_in old s \<Longrightarrow> length (str_replace old [] s) < length s"
proof (induction s)
  case Nil
  then show ?case by simp
next
  case (Cons c cs)
  show ?case
  proof (cases "prefix old (c # cs)")
    case True
    have "length (str_replace old [] (drop (length old) (c # cs))) \<le> length (drop (length old) (c # cs))"
      using Cons.prems(1) by (rule length_str_replace_del_le)
    moreover have "length (drop (length old) (c # cs)) < length (c # cs)"
      using Cons.prems(1) by simp
    ultimately have "length (str_replace old [] (drop (length old) (c # cs))) < length (c # cs)"
      by (rule le_less_trans)
    then show ?thesis using True Cons.prems(1) by simp
  next
    case False
    then show ?thesis using Cons by auto
  qed
qed

section \<open>Properties of the path normalizer\<close>


lemma sanitize_paths_filter:
  "sanitize_paths s =
     filter (\<lambda>c. c \<noteq> squote) (filter (\<lambda>c. c \<noteq> dquote) (filter (\<lambda>c. c \<noteq> NUL)
       (str_replace (bsl @ ''??'' @ bsl) []
         (str_replace ''%windir%'' []
           (str_replace (bsl @ ''systemroot'' @ bsl) []
             (str_replace (''%systemroot%'' @ bsl) [] (str_lower s)))))))"
  by (simp only: sanitize_paths_def Let_def str_replace_single_del)

lemma set_sanitize_paths: "set (sanitize_paths s) \<subseteq> set (str_lower s) - {NUL, squote, dquote}"
proof -
  let ?a = "str_replace (''%systemroot%'' @ bsl) [] (str_lower s)"
  let ?b = "str_replace (bsl @ ''systemroot'' @ bsl) [] ?a"
  let ?c = "str_replace ''%windir%'' [] ?b"
  let ?d = "str_replace (bsl @ ''??'' @ bsl) [] ?c"
  have "set ?a \<subseteq> set (str_lower s)" by (rule set_str_replace_del) simp
  moreover have "set ?b \<subseteq> set ?a" by (rule set_str_replace_del) simp
  moreover have "set ?c \<subseteq> set ?b" by (rule set_str_replace_del) simp
  moreover have "set ?d \<subseteq> set ?c" by (rule set_str_replace_del) simp
  ultimately have "set ?d \<subseteq> set (str_lower s)" by blast
  then show ?thesis unfolding sanitize_paths_filter by auto
qed

lemma sanitize_paths_chars_aux:
  "NUL \<notin> set (sanitize_paths s) \<and> squote \<notin> set (sanitize_paths s) \<and>
   dquote \<notin> set (sanitize_paths s) \<and> list_all (\<lambda>c. \<not> is_upper c) (sanitize_paths s)"
proof -
  have "list_all (\<lambda>c. \<not> is_upper c) (sanitize_paths s)"
    using set_sanitize_paths [of s] str_lower_no_upper [of s]
    unfolding list_all_iff by blast
  then show ?thesis using set_sanitize_paths [of s] by blast
qed

lemma sanitize_paths_upper: "sanitize_paths (str_upper s) = sanitize_paths s"
  by (simp only: sanitize_paths_def str_lower_upper)

lemma filter_neq_id: "c \<notin> set xs \<Longrightarrow> filter (\<lambda>x. x \<noteq> c) xs = xs"
  by (induction xs) auto

lemma sanitize_paths_fixed:
  assumes "list_all (\<lambda>c. \<not> is_upper c) x" "NUL \<notin> set x" "squote \<notin> set x" "dquote \<notin> set x"
    and "\<not> str_in (''%systemroot%'' @ bsl) x" "\<not> str_in (bsl @ ''systemroot'' @ bsl) x"
    and "\<not> str_in ''%windir%'' x" "\<not> str_in (bsl @ ''??'' @ bsl) x"
  shows "sanitize_paths x = x"
proof -
  have l: "str_lower x = x" using assms(1) by (rule str_lower_id)
  have a: "str_replace (''%systemroot%'' @ bsl) [] x = x"
    using assms(5) by (intro str_replace_no_occ) simp_all
  have b: "str_replace (bsl @ ''systemroot'' @ bsl) [] x = x"
    using assms(6) by (intro str_replace_no_occ) simp_all
  have c: "str_replace ''%windir%'' [] x = x"
    using assms(7) by (intro str_replace_no_occ) simp_all
  have d: "str_replace (bsl @ ''??'' @ bsl) [] x = x"
    using assms(8) by (intro str_replace_no_occ) simp_all
  show ?thesis
    unfolding sanitize_paths_filter l a b c d
    using assms(2-4) by (simp add: filter_neq_id)
qed

lemma sanitize_paths_shrinks:
  assumes low: "list_all (\<lambda>c. \<not> is_upper c) x"
    and tok: "str_in (''%systemroot%'' @ bsl) x \<or> str_in (bsl @ ''systemroot'' @ bsl) x \<or>
              str_in ''%windir%'' x \<or> str_in (bsl @ ''??'' @ bsl) x"
  shows "length (sanitize_paths x) < length x"
proof -
  let ?t1 = "''%systemroot%'' @ bsl" and ?t2 = "bsl @ ''systemroot'' @ bsl"
  let ?t3 = "''%windir%''" and ?t4 = "bsl @ ''??'' @ bsl"
  let ?a = "str_replace ?t1 [] x"
  let ?b = "str_replace ?t2 [] ?a"
  let ?c = "str_replace ?t3 [] ?b"
  let ?d = "str_replace ?t4 [] ?c"
  have l: "str_lower x = x" using low by (rule str_lower_id)
  have la: "length ?a \<le> length x" by (rule length_str_replace_del_le) simp
  have lb: "length ?b \<le> length ?a" by (rule length_str_replace_del_le) simp
  have lc: "length ?c \<le> length ?b" by (rule length_str_replace_del_le) simp
  have ld: "length ?d \<le> length ?c" by (rule length_str_replace_del_le) simp
  have fin: "length (sanitize_paths x) \<le> length ?d"
    unfolding sanitize_paths_filter l
    by (meson length_filter_le le_trans)
  have "length ?d < length x"
  proof (cases "str_in ?t1 x")
    case True
    then have "length ?a < length x" by (intro length_str_replace_del_less) simp_all
    then show ?thesis using lb lc ld by linarith
  next
    case n1: False
    then have a: "?a = x" by (intro str_replace_no_occ) simp_all
    show ?thesis
    proof (cases "str_in ?t2 x")
      case True
      then have "length ?b < length x" unfolding a by (intro length_str_replace_del_less) simp_all
      then show ?thesis using lc ld by linarith
    next
      case n2: False
      then have b: "?b = x" unfolding a by (intro str_replace_no_occ) simp_all
      show ?thesis
      proof (cases "str_in ?t3 x")
        case True
        then have "length ?c < length x" unfolding b by (intro length_str_replace_del_less) simp_all
        then show ?thesis using ld by linarith
      next
        case n3: False
        then have c: "?c = x" unfolding b by (intro str_replace_no_occ) simp_all
        have "str_in ?t4 x" using tok n1 n2 n3 by blast
        then show ?thesis unfolding c by (intro length_str_replace_del_less) simp_all
      qed
    qed
  qed
  then show ?thesis using fin by linarith
qed


section \<open>Properties of the PID correlator\<close>

lemma encode_ascii_of_char: "list_all (\<lambda>c. (of_char c :: nat) < 128) s \<Longrightarrow> encode_ascii (map of_char s) = s"
  by (induction s) (simp_all add: encode_ascii_def backslashreplace_def)

lemma c1_data_ascii: "list_all (\<lambda>c. (of_char c :: nat) < 128) c1_data"
  by (simp add: c1_data_def)

lemma c1_dict: "dict_for_key c1_run_key = [(''MyApp'', c1_data)]"
  by (simp add: dict_for_key_def c1_run_key_def encode_ascii_of_char [OF c1_data_ascii])

lemma c1_sanitize: "sanitize_paths c1_data = ''c:'' @ bsl @ ''apps'' @ bsl @ ''app.exe --flag''"
  by code_simp

lemma remdups_all_same: "set ys \<subseteq> {x} \<Longrightarrow> remdups (x # ys) = [x]"
  by (induction ys) auto

lemma str_in_refl: "str_in s s"
  by (cases s) simp_all

lemma sanitize_paths_lower: "sanitize_paths (str_lower s) = sanitize_paths s"
  by (simp only: sanitize_paths_def str_lower_idem)

lemma str_lower_sanitize_paths: "str_lower (sanitize_paths s) = sanitize_paths s"
  using sanitize_paths_chars_aux [of s] by (simp add: str_lower_id)

lemma c1_find: "find_pids_for_imagepath [(1234, c1_task lm, dlls)] c1_data = [1234]"
proof -
  have ne: "sanitize_paths c1_data \<noteq> []" by (simp add: c1_sanitize)
  have "pids_of_process (sanitize_paths c1_data) (1234, c1_task lm, dlls) =
        1234 # concat (map (\<lambda>dll.
             if str_in (str_lower (sanitize_paths c1_data))
                  (sanitize_paths (str_lower (str_or (FullDllName dll) ''[no dllname]'')))
             then [1234] else []) dlls)"
    by (simp add: pids_of_process_def c1_task_def str_or_def sanitize_paths_lower
        str_lower_sanitize_paths str_in_refl c1_data_def)
  moreover have "set (concat (map (\<lambda>dll.
             if str_in (str_lower (sanitize_paths c1_data))
                  (sanitize_paths (str_lower (str_or (FullDllName dll) ''[no dllname]'')))
             then [1234::int] else []) dlls)) \<subseteq> {1234}"
    by auto
  ultimately show ?thesis
    using ne by (simp add: find_pids_for_imagepath_def remdups_all_same del: remdups.simps)
qed

lemma c1_parse:
  "parse_autoruns_key [(1234, c1_task lm, dlls)] c1_run_key = [(''MyApp'', c1_data, [1234])]"
  by (simp add: parse_autoruns_key_def c1_dict c1_find) (simp add: c1_data_def)

lemma sanitize_paths_Nil: "sanitize_paths [] = []"
  by (simp add: sanitize_paths_def str_lower_def)

lemma find_pids_sanitized_empty:
  "sanitize_paths module = [] \<Longrightarrow> find_pids_for_imagepath process_dict module = []"
  by (simp add: find_pids_for_imagepath_def)

lemma set_find_pids:
  "set (find_pids_for_imagepath process_dict module) =
     (if sanitize_paths module = [] then {}
      else (\<Union>e \<in> set process_dict. set (pids_of_process (sanitize_paths module) e)))"
  by (simp add: find_pids_for_imagepath_def)

lemma update_new_key: "k \<notin> fst ` set al \<Longrightarrow> AList.update k v al = al @ [(k, v)]"
  by (induction al) auto

lemma set_pids_of_process_subset: "set (pids_of_process m (pid, t, dlls)) \<subseteq> {pid}"
  by (auto simp: pids_of_process_def split: option.splits if_splits)

lemma pids_of_process_cmdline:
  assumes "Peb t = Some pb"
    and "str_in (sanitize_paths module) (sanitize_paths (str_or (CommandLine pb) ''[no cmdline]''))"
  shows "set (pids_of_process (sanitize_paths module) (pid, t, dlls)) = {pid}"
proof -
  have "pid \<in> set (pids_of_process (sanitize_paths module) (pid, t, dlls))"
    using assms
    by (simp add: pids_of_process_def str_lower_sanitize_paths sanitize_paths_lower)
  then show ?thesis using set_pids_of_process_subset [of "sanitize_paths module" pid t dlls] by blast
qed

section \<open>Properties of the service extractor\<close>


lemma map_of_service_startup_auto:
  "s \<in> set [0, 1, 2] \<Longrightarrow> \<exists>l. map_of service_startup s = Some l"
  by (auto simp: service_startup_def)

lemma parse_service_key_Start_Inl:
  "int_of_field (dict_for_key k) ''Start'' = Inl e \<Longrightarrow> parse_service_key pd k = Inl e"
  unfolding parse_service_key_def Let_def by simp

lemma parse_service_key_Type_Inl:
  "int_of_field (dict_for_key k) ''Start'' = Inr s \<Longrightarrow>
   int_of_field (dict_for_key k) ''Type'' = Inl e \<Longrightarrow> parse_service_key pd k = Inl e"
  unfolding parse_service_key_def Let_def by simp

lemma parse_service_key_not_auto:
  "int_of_field (dict_for_key k) ''Start'' = Inr s \<Longrightarrow>
   int_of_field (dict_for_key k) ''Type'' = Inr t \<Longrightarrow> s \<notin> set [0, 1, 2] \<Longrightarrow>
   parse_service_key pd k = Inr None"
  unfolding parse_service_key_def Let_def by (simp split: prod.splits)

lemma parse_service_key_auto_eq:
  assumes "int_of_field (dict_for_key k) ''Start'' = Inr s"
    and "int_of_field (dict_for_key k) ''Type'' = Inr t"
    and "s \<in> set [0, 1, 2]"
    and "map_of service_startup s = Some slab"
    and "map_of service_types t = Some tlab"
  shows "parse_service_key pd k = Inr (Some (service_record pd k slab tlab))"
  using assms(3)
  unfolding parse_service_key_def service_record_def Let_def assms(1,2)
  by (simp add: assms(4,5) split: prod.splits)

lemma parse_service_key_KeyError:
  assumes "int_of_field (dict_for_key k) ''Start'' = Inr s"
    and "int_of_field (dict_for_key k) ''Type'' = Inr t"
    and "s \<in> set [0, 1, 2]"
    and "map_of service_types t = None"
  shows "parse_service_key pd k = Inl KeyError"
proof -
  obtain slab where "map_of service_startup s = Some slab"
    using map_of_service_startup_auto [OF assms(3)] by blast
  then show ?thesis
    using assms(3)
    unfolding parse_service_key_def Let_def assms(1,2)
    by (simp add: assms(4) split: prod.splits)
qed

lemma parse_service_key_Some_D:
  assumes "parse_service_key pd k = Inr (Some r)"
  shows "\<exists>s t slab tlab.
           int_of_field (dict_for_key k) ''Start'' = Inr s \<and>
           int_of_field (dict_for_key k) ''Type'' = Inr t \<and>
           s \<in> set [0, 1, 2] \<and>
           map_of service_startup s = Some slab \<and>
           map_of service_types t = Some tlab \<and>
           r = service_record pd k slab tlab"
proof (cases "int_of_field (dict_for_key k) ''Start''")
  case (Inl e)
  then show ?thesis using assms parse_service_key_Start_Inl [OF Inl, of pd] by simp
next
  case s: (Inr s)
  show ?thesis
  proof (cases "int_of_field (dict_for_key k) ''Type''")
    case (Inl e)
    then show ?thesis using assms parse_service_key_Type_Inl [OF s Inl, of pd] by simp
  next
    case t: (Inr t)
    show ?thesis
    proof (cases "s \<in> set [0, 1, 2]")
      case False
      then show ?thesis using assms parse_service_key_not_auto [OF s t False, of pd] by simp
    next
      case True
      obtain slab where slab: "map_of service_startup s = Some slab"
        using map_of_service_startup_auto [OF True] by blast
      show ?thesis
      proof (cases "map_of service_types t")
        case None
        then show ?thesis using assms parse_service_key_KeyError [OF s t True None, of pd] by simp
      next
        case (Some tlab)
        have "r = service_record pd k slab tlab"
          using assms parse_service_key_auto_eq [OF s t True slab Some, of pd] by simp
        then show ?thesis using s t True slab Some by blast
      qed
    qed
  qed
qed


lemma parse_service_key_auto:
  "int_of_field (dict_for_key k) ''Start'' = Inr s \<Longrightarrow>
   int_of_field (dict_for_key k) ''Type'' = Inr t \<Longrightarrow> s \<in> set [0, 1, 2] \<Longrightarrow>
   map_of service_types t = Some tlab \<Longrightarrow>
   \<exists>r. parse_service_key pd k = Inr (Some r)"
  using map_of_service_startup_auto [of s] parse_service_key_auto_eq [of k s t _ tlab pd]
  by blast

lemma get_services_members:
  "get_services pd v ks = Inr rs \<Longrightarrow> r \<in> set rs \<Longrightarrow>
     \<exists>k \<in> set ks. parse_service_key pd k = Inr (Some r)"
proof (induction ks arbitrary: rs)
  case Nil
  then show ?case by simp
next
  case (Cons k ks)
  then show ?case
    by (auto split: sum.splits option.splits if_splits)
qed

lemma get_services_total:
  "(\<And>k. k \<in> set ks \<Longrightarrow> \<exists>p. parse_service_key pd k = Inr p) \<Longrightarrow>
     \<exists>rs. get_services pd v ks = Inr rs"
proof (induction ks)
  case Nil
  then show ?case by simp
next
  case (Cons k ks)
  obtain p where p: "parse_service_key pd k = Inr p" using Cons.prems by auto
  obtain rs where rs: "get_services pd v ks = Inr rs" using Cons by auto
  show ?case using p rs by (simp split: option.splits)
qed

lemma get_services_raises:
  "parse_service_key pd k = Inl e \<Longrightarrow> get_services pd v (k # ks) = Inl e"
  by simp

section \<open>The claims\<close>

subsection \<open>The path normalizer\<close>

text \<open>
  C9.  For every input string, the output of \<open>sanitize_paths\<close> has no upper-case ASCII
  letter, no NUL character, and no single or double quote character.
\<close>

theorem sanitize_paths_output_chars:
  "NUL \<notin> set (sanitize_paths s) \<and> squote \<notin> set (sanitize_paths s) \<and>
   dquote \<notin> set (sanitize_paths s) \<and> list_all (\<lambda>c. \<not> is_upper c) (sanitize_paths s)"
  by (rule sanitize_paths_chars_aux)

theorem sanitize_paths_output_chars_witness:
  "NUL \<notin> set (sanitize_paths ([dquote] @ c1_data @ [dquote, NUL])) \<and>
   squote \<notin> set (sanitize_paths ([dquote] @ c1_data @ [dquote, NUL])) \<and>
   dquote \<notin> set (sanitize_paths ([dquote] @ c1_data @ [dquote, NUL])) \<and>
   list_all (\<lambda>c. \<not> is_upper c) (sanitize_paths ([dquote] @ c1_data @ [dquote, NUL]))"
  using sanitize_paths_output_chars [of "[dquote] @ c1_data @ [dquote, NUL]"] .

text \<open>
  C3, as the code has it.  \<open>sanitize_paths\<close> does not depend on the case of its input,
  for every string.  It is idempotent on a string exactly when its first result holds
  none of the four tokens that it removes: each token is removed in one pass, and the
  removal of a token, of a quote or of a NUL can join the two halves of another token.
\<close>

theorem sanitize_paths_case_and_idempotence:
  "sanitize_paths (str_upper s) = sanitize_paths s \<and>
   (sanitize_paths (sanitize_paths s) = sanitize_paths s \<longleftrightarrow>
      \<not> str_in (''%systemroot%'' @ bsl) (sanitize_paths s) \<and>
      \<not> str_in (bsl @ ''systemroot'' @ bsl) (sanitize_paths s) \<and>
      \<not> str_in ''%windir%'' (sanitize_paths s) \<and>
      \<not> str_in (bsl @ ''??'' @ bsl) (sanitize_paths s))"
proof -
  let ?x = "sanitize_paths s"
  note ch = sanitize_paths_chars_aux [of s]
  have "sanitize_paths ?x = ?x"
    if "\<not> str_in (''%systemroot%'' @ bsl) ?x" "\<not> str_in (bsl @ ''systemroot'' @ bsl) ?x"
       "\<not> str_in ''%windir%'' ?x" "\<not> str_in (bsl @ ''??'' @ bsl) ?x"
    using ch that by (intro sanitize_paths_fixed) simp_all
  moreover have "sanitize_paths ?x \<noteq> ?x"
    if "str_in (''%systemroot%'' @ bsl) ?x \<or> str_in (bsl @ ''systemroot'' @ bsl) ?x \<or>
        str_in ''%windir%'' ?x \<or> str_in (bsl @ ''??'' @ bsl) ?x"
  proof -
    have "length (sanitize_paths ?x) < length ?x"
      using ch that by (intro sanitize_paths_shrinks) simp_all
    then show ?thesis by auto
  qed
  ultimately show ?thesis using sanitize_paths_upper [of s] by blast
qed

theorem sanitize_paths_case_and_idempotence_witness:
  "sanitize_paths (str_upper c1_data) = sanitize_paths c1_data \<and>
   sanitize_paths (sanitize_paths c1_data) = sanitize_paths c1_data"
  using sanitize_paths_case_and_idempotence [of c1_data] by (simp add: c1_sanitize)

text \<open>
  C3, as stated, fails: on \<open>%win"dir%\<close> the first pass removes the quote and leaves
  \<open>%windir%\<close>, which the second pass removes.
\<close>

theorem sanitize_paths_not_idempotent:
  "sanitize_paths (''%win'' @ [dquote] @ ''dir%'') = ''%windir%'' \<and>
   sanitize_paths (sanitize_paths (''%win'' @ [dquote] @ ''dir%'')) = []"
  by (simp add: sanitize_paths_def str_lower_def lower_char_def is_upper_def)

subsection \<open>The PID correlator\<close>

lemma c8_cmdline:
  "str_in (sanitize_paths c1_data)
     (sanitize_paths (str_or (Some ([dquote] @ c1_data @ [dquote] @ '' /s'')) ''[no cmdline]''))"
  by code_simp

lemma windir_sanitized: "sanitize_paths ''%windir%'' = []"
  by code_simp

text \<open>
  C4, as the code has it.  For every process inventory, \<open>find_pids_for_imagepath\<close>
  returns no process id for the empty string, and for every string its result has no
  process id twice.  An absent reference path (\<^verbatim>\<open>None\<close>) is not accepted: the call raises
  \<^verbatim>\<open>AttributeError\<close>.
\<close>

theorem find_pids_empty_and_distinct:
  "find_pids_for_imagepath_arg process_dict (Some []) = Inr [] \<and>
   find_pids_for_imagepath_arg process_dict (Some module) =
     Inr (find_pids_for_imagepath process_dict module) \<and>
   distinct (find_pids_for_imagepath process_dict module) \<and>
   find_pids_for_imagepath_arg process_dict None = Inl AttributeError"
  by (simp add: find_pids_for_imagepath_arg_def find_pids_for_imagepath_def sanitize_paths_Nil
      Let_def)

theorem find_pids_empty_and_distinct_witness:
  "find_pids_for_imagepath_arg [(1234, c1_task [], [])] (Some []) = Inr [] \<and>
   find_pids_for_imagepath_arg [(1234, c1_task [], [])] (Some c1_data) = Inr [1234] \<and>
   distinct [1234 :: int]"
  using find_pids_empty_and_distinct [of "[(1234, c1_task [], [])]" c1_data]
  by (simp add: c1_find)

text \<open>
  C4, as stated, fails: for an absent reference path the call does not return the empty
  set, it raises.
\<close>

theorem find_pids_absent_path_raises:
  "find_pids_for_imagepath_arg [(1234, c1_task [], [])] None = Inl AttributeError"
  by (simp add: find_pids_for_imagepath_arg_def)

text \<open>
  C8.  \<open>find_pids_for_imagepath\<close> is monotonic in the inventory: for every inventory and
  every reference path, recording a process under a new id removes no process id from the
  result.  When the reference path is not empty and the normalized command line of the new
  process contains the normalized reference path, the result is the old one and the new
  id, or stays empty when the reference path is empty once normalized.
\<close>

theorem find_pids_monotonic:
  assumes new: "pid \<notin> fst ` set process_dict"
  shows "set (find_pids_for_imagepath process_dict module)
           \<subseteq> set (find_pids_for_imagepath (AList.update pid (t, dlls) process_dict) module) \<and>
         (module \<noteq> [] \<and> Peb t = Some pb \<and>
          str_in (sanitize_paths module)
            (sanitize_paths (str_or (CommandLine pb) ''[no cmdline]''))
          \<longrightarrow> set (find_pids_for_imagepath (AList.update pid (t, dlls) process_dict) module) =
                (if sanitize_paths module = [] then {}
                 else insert pid (set (find_pids_for_imagepath process_dict module))))"
proof -
  have upd: "AList.update pid (t, dlls) process_dict = process_dict @ [(pid, t, dlls)]"
    using new by (rule update_new_key)
  have mono: "set (find_pids_for_imagepath process_dict module)
           \<subseteq> set (find_pids_for_imagepath (AList.update pid (t, dlls) process_dict) module)"
    unfolding upd set_find_pids by auto
  have grow: "set (find_pids_for_imagepath (AList.update pid (t, dlls) process_dict) module) =
                (if sanitize_paths module = [] then {}
                 else insert pid (set (find_pids_for_imagepath process_dict module)))"
    if peb: "Peb t = Some pb"
      and cmd: "str_in (sanitize_paths module)
                  (sanitize_paths (str_or (CommandLine pb) ''[no cmdline]''))"
    unfolding upd set_find_pids using pids_of_process_cmdline [OF peb cmd, of pid dlls]
    by auto
  show ?thesis using mono grow by blast
qed

theorem find_pids_monotonic_witness:
  "(7::int) \<notin> fst ` set [(1234::int, c1_task [], [])] \<and>
   find_pids_for_imagepath [(1234, c1_task [], [])] c1_data = [1234] \<and>
   set (find_pids_for_imagepath (AList.update 7 (c8_task, []) [(1234, c1_task [], [])]) c1_data) =
     {1234, 7} \<and>
   find_pids_for_imagepath (AList.update 7 (c8_task, []) [(1234, c1_task [], [])]) ''%windir%'' = []"
proof -
  have new: "(7::int) \<notin> fst ` set [(1234::int, c1_task [], [])]" by simp
  have ne: "c1_data \<noteq> []" by (simp add: c1_data_def)
  have san: "sanitize_paths c1_data \<noteq> []" by (simp add: c1_sanitize)
  have peb: "Peb c8_task = Some \<lparr>CommandLine = Some ([dquote] @ c1_data @ [dquote] @ '' /s'')\<rparr>"
    by (simp add: c8_task_def)
  have cmd: "str_in (sanitize_paths c1_data)
     (sanitize_paths (str_or (CommandLine \<lparr>CommandLine = Some ([dquote] @ c1_data @ [dquote] @ '' /s'')\<rparr>)
        ''[no cmdline]''))"
    using c8_cmdline by simp
  have old: "find_pids_for_imagepath [(1234, c1_task [], [])] c1_data = [1234]"
    by (rule c1_find)
  have "set (find_pids_for_imagepath (AList.update 7 (c8_task, []) [(1234, c1_task [], [])]) c1_data) =
     insert 7 (set (find_pids_for_imagepath [(1234, c1_task [], [])] c1_data))"
    using find_pids_monotonic [OF new, where module = c1_data and t = c8_task and dlls = "[]"
        and pb = "\<lparr>CommandLine = Some ([dquote] @ c1_data @ [dquote] @ '' /s'')\<rparr>"]
      ne san peb cmd
    by presburger
  then have "set (find_pids_for_imagepath (AList.update 7 (c8_task, []) [(1234, c1_task [], [])]) c1_data) =
     {1234, 7}"
    unfolding old by auto
  moreover have "find_pids_for_imagepath (AList.update 7 (c8_task, []) [(1234, c1_task [], [])]) ''%windir%'' = []"
    by (rule find_pids_sanitized_empty) (rule windir_sanitized)
  ultimately show ?thesis using new old by blast
qed

subsection \<open>Run keys\<close>

text \<open>
  C1, as the code has it.  For the Run key whose value \<open>MyApp\<close> holds
  \<open>C:\Apps\app.exe --flag\<close> and the inventory of the one process 1234 with that command
  line, whatever modules it has loaded, \<open>parse_autoruns_key\<close> returns one entry: the name
  \<open>MyApp\<close>, the data as stored (NUL bytes removed, case kept), and the process ids
  \<open>[1234]\<close>.
\<close>

theorem run_key_round_trip:
  "parse_autoruns_key [(1234, c1_task lm, dlls)] c1_run_key = [(''MyApp'', c1_data, [1234])]"
  by (rule c1_parse)

theorem run_key_round_trip_witness:
  "parse_autoruns_key [(1234, c1_task [], [])] c1_run_key = [(''MyApp'', c1_data, [1234])]"
  using run_key_round_trip [of "[]" "[]"] .

text \<open>
  C1, as stated, fails: the path of the entry is not the normalized, lower-case string.
\<close>

theorem run_key_path_not_normalized:
  "parse_autoruns_key [(1234, c1_task [], [])] c1_run_key
     \<noteq> [(''MyApp'', sanitize_paths c1_data, [1234])] \<and>
   sanitize_paths c1_data = ''c:'' @ bsl @ ''apps'' @ bsl @ ''app.exe --flag''"
  by (simp add: c1_parse c1_sanitize) (simp add: c1_data_def)

subsection \<open>AppInit DLLs\<close>

text \<open>
  C6.  \<open>get_appinit_dlls\<close> removes the NUL characters and splits on spaces, in order;
  for the empty string it returns the list of one empty path, not the empty list.
\<close>

theorem get_appinit_dlls_empty_value:
  "get_appinit_dlls (''a.dll b.dll'' @ [NUL]) = Some [''a.dll'', ''b.dll''] \<and>
   get_appinit_dlls [] = Some [[]]"
  by (simp add: get_appinit_dlls_def)

subsection \<open>Services\<close>
lemma manual_key_start: "int_of_field (dict_for_key manual_key) ''Start'' = Inr 3"
  by code_simp

lemma spooler_key_start: "int_of_field (dict_for_key spooler_key) ''Start'' = Inr 2"
  by code_simp

lemma manual_key_parse: "parse_service_key [] manual_key = Inr None"
  by code_simp

lemma spooler_key_parse: "parse_service_key [] spooler_key = Inr (Some spooler_record)"
  by code_simp

lemma manual_spooler_services:
  "get_services [] True [manual_key, spooler_key] = Inr [spooler_record]"
  by (simp add: manual_key_parse spooler_key_parse)



lemma int_of_field_missing: "map_of d f = None \<Longrightarrow> int_of_field d f = Inr (- 1)"
  by (simp add: int_of_field_def)

lemma no_type_key_fields:
  "int_of_field (dict_for_key no_type_key) ''Start'' = Inr 2 \<and>
   int_of_field (dict_for_key no_type_key) ''Type'' = Inr (- 1) \<and>
   map_of (dict_for_key no_type_key) ''Type'' = None"
  by code_simp

lemma no_start_key_fields:
  "int_of_field (dict_for_key no_start_key) ''Start'' = Inr (- 1) \<and>
   int_of_field (dict_for_key no_start_key) ''Type'' = Inr 32 \<and>
   map_of (dict_for_key no_start_key) ''Start'' = None"
  by code_simp

lemma no_type_key_parse:
  "parse_service_key [] no_type_key =
     Inr (Some \<lparr>svc_name = ''NoType'', svc_timestamp = 100, svc_display_name = ''Unknown'',
       svc_startup = ''Auto Start'', svc_type = ''Unknown'',
       svc_image_path = spooler_path, svc_entry = None, svc_pids = []\<rparr>)"
  by code_simp

lemma no_start_key_parse: "parse_service_key [] no_start_key = Inr None"
  by code_simp

lemma unknown_in_service_types: "(- 1 :: int) \<in> fst ` set service_types"
  by (simp add: service_types_def)


lemma service_types_lookup:
  "t \<in> fst ` set service_types \<Longrightarrow> \<exists>tlab. map_of service_types t = Some tlab"
  by (cases "map_of service_types t") (simp_all add: map_of_eq_None_iff)

lemma service_types_unknown: "map_of service_types (- 1) = Some tlab \<Longrightarrow> tlab = ''Unknown''"
  by (simp add: service_types_def)

lemma svc_type_service_record: "svc_type (service_record pd k slab tlab) = tlab"
  by (simp add: service_record_def Let_def)

lemma parse_service_key_total:
  assumes s: "int_of_field (dict_for_key k) ''Start'' = Inr s"
    and t: "int_of_field (dict_for_key k) ''Type'' = Inr t"
    and st: "s \<in> set [0, 1, 2] \<longrightarrow> t \<in> fst ` set service_types"
  shows "\<exists>p. parse_service_key pd k = Inr p"
proof (cases "s \<in> set [0, 1, 2]")
  case True
  then have "t \<in> fst ` set service_types" using st by blast
  then obtain tlab where "map_of service_types t = Some tlab"
    using service_types_lookup by blast
  then show ?thesis using parse_service_key_auto [OF s t True, of tlab pd] by blast
next
  case False
  then show ?thesis using parse_service_key_not_auto [OF s t False, of pd] by blast
qed

lemma parse_service_key_missing_start:
  assumes m: "map_of (dict_for_key k) ''Start'' = None"
  shows "parse_service_key pd k \<noteq> Inr (Some r)"
proof
  assume "parse_service_key pd k = Inr (Some r)"
  from parse_service_key_Some_D [OF this] obtain s where
    "int_of_field (dict_for_key k) ''Start'' = Inr s" "s \<in> set [0, 1, 2]" by blast
  then show False using int_of_field_missing [OF m] by simp
qed

lemma parse_service_key_missing_type:
  assumes m: "map_of (dict_for_key k) ''Type'' = None"
    and p: "parse_service_key pd k = Inr (Some r)"
  shows "svc_type r = ''Unknown''"
proof -
  from parse_service_key_Some_D [OF p] obtain s t slab tlab where
    t: "int_of_field (dict_for_key k) ''Type'' = Inr t"
    and tl: "map_of service_types t = Some tlab"
    and r: "r = service_record pd k slab tlab"
    by blast
  have "t = - 1" using t int_of_field_missing [OF m] by simp
  then have "tlab = ''Unknown''" using tl service_types_unknown by blast
  then show ?thesis using r by (simp only: svc_type_service_record)
qed

text \<open>
  C5.  A service key whose \<open>Start\<close> reads 3 (Manual) or 4 (Disabled) gives no record,
  whatever its other values; every record that \<open>get_services\<close> returns comes from a key
  whose \<open>Start\<close> reads 0, 1 or 2.
\<close>

theorem manual_disabled_services_excluded:
  "(int_of_field (dict_for_key k) ''Start'' = Inr s \<and> (s = 3 \<or> s = 4)
      \<longrightarrow> parse_service_key pd k \<noteq> Inr (Some r)) \<and>
   (get_services pd v ks = Inr rs \<and> r \<in> set rs
      \<longrightarrow> (\<exists>k' \<in> set ks. parse_service_key pd k' = Inr (Some r) \<and>
             (int_of_field (dict_for_key k') ''Start'' = Inr 0 \<or>
              int_of_field (dict_for_key k') ''Start'' = Inr 1 \<or>
              int_of_field (dict_for_key k') ''Start'' = Inr 2)))"
proof (intro conjI impI)
  assume a: "int_of_field (dict_for_key k) ''Start'' = Inr s \<and> (s = 3 \<or> s = 4)"
  show "parse_service_key pd k \<noteq> Inr (Some r)"
  proof
    assume "parse_service_key pd k = Inr (Some r)"
    from parse_service_key_Some_D [OF this] a show False by auto
  qed
next
  assume b: "get_services pd v ks = Inr rs \<and> r \<in> set rs"
  then obtain k' where k': "k' \<in> set ks" "parse_service_key pd k' = Inr (Some r)"
    using get_services_members [of pd v ks rs r] by blast
  from parse_service_key_Some_D [OF k'(2)]
  have "int_of_field (dict_for_key k') ''Start'' = Inr 0 \<or>
        int_of_field (dict_for_key k') ''Start'' = Inr 1 \<or>
        int_of_field (dict_for_key k') ''Start'' = Inr 2"
    by auto
  then show "\<exists>k' \<in> set ks. parse_service_key pd k' = Inr (Some r) \<and>
             (int_of_field (dict_for_key k') ''Start'' = Inr 0 \<or>
              int_of_field (dict_for_key k') ''Start'' = Inr 1 \<or>
              int_of_field (dict_for_key k') ''Start'' = Inr 2)"
    using k' by blast
qed

theorem manual_disabled_services_excluded_witness:
  "int_of_field (dict_for_key manual_key) ''Start'' = Inr 3 \<and>
   parse_service_key [] manual_key \<noteq> Inr (Some spooler_record) \<and>
   get_services [] True [manual_key, spooler_key] = Inr [spooler_record] \<and>
   parse_service_key [] spooler_key = Inr (Some spooler_record) \<and>
   int_of_field (dict_for_key spooler_key) ''Start'' = Inr 2"
  using manual_disabled_services_excluded
          [of manual_key 3 "[]" spooler_record True "[manual_key, spooler_key]" "[spooler_record]"]
        manual_key_start spooler_key_start manual_spooler_services spooler_key_parse
  by simp

lemma if_Inl_ValueError: "(if c then Inl ValueError else Inr y) = Inl e \<Longrightarrow> e = ValueError"
  by (cases c) simp_all

lemma py_int_Inl: "py_int x = Inl e \<Longrightarrow> e = ValueError"
  unfolding py_int_def Let_def by (rule if_Inl_ValueError)

lemma int_of_field_Inl: "int_of_field d f = Inl e \<Longrightarrow> e = ValueError"
proof (cases "map_of d f")
  case None
  then show "int_of_field d f = Inl e \<Longrightarrow> e = ValueError" by (simp add: int_of_field_def)
next
  case (Some x)
  then show "int_of_field d f = Inl e \<Longrightarrow> e = ValueError"
    using py_int_Inl [of x e] by (simp add: int_of_field_def)
qed

lemma parse_service_key_malformed:
  assumes "int_of_field (dict_for_key k) ''Start'' = Inl e \<or>
           int_of_field (dict_for_key k) ''Type'' = Inl e"
  shows "parse_service_key pd k = Inl ValueError"
proof (cases "int_of_field (dict_for_key k) ''Start''")
  case (Inl e')
  then show ?thesis
    using parse_service_key_Start_Inl [OF Inl, of pd] int_of_field_Inl [OF Inl] by simp
next
  case (Inr s)
  then have t: "int_of_field (dict_for_key k) ''Type'' = Inl e" using assms by simp
  show ?thesis
    using parse_service_key_Type_Inl [OF Inr t, of pd] int_of_field_Inl [OF t] by simp
qed

lemma get_services_append_raises:
  assumes "\<forall>k' \<in> set pre. \<exists>p. parse_service_key pd k' = Inr p"
    and "parse_service_key pd k = Inl e"
  shows "get_services pd v (pre @ k # post) = Inl e"
  using assms
proof (induction pre)
  case Nil
  then show ?case by simp
next
  case (Cons a pre)
  then obtain p where "parse_service_key pd a = Inr p" by auto
  moreover have "get_services pd v (pre @ k # post) = Inl e" using Cons by simp
  ultimately show ?case by simp
qed

lemma get_services_Inr_all:
  "get_services pd v ks = Inr rs \<Longrightarrow> k \<in> set ks \<Longrightarrow> \<exists>p. parse_service_key pd k = Inr p"
proof (induction ks arbitrary: rs)
  case Nil
  then show ?case by simp
next
  case (Cons a ks)
  then show ?case by (auto split: sum.splits option.splits if_splits)
qed

lemma get_services_member_raises:
  assumes "k \<in> set ks" and "parse_service_key pd k = Inl e"
  shows "\<exists>e'. get_services pd v ks = Inl e'"
proof (cases "get_services pd v ks")
  case (Inl e')
  then show ?thesis by blast
next
  case (Inr rs)
  then show ?thesis using get_services_Inr_all [OF Inr assms(1)] assms(2) by simp
qed
lemma malformed_key_fields:
  "int_of_field (dict_for_key malformed_key) ''Start'' = Inl ValueError \<and>
   int_of_field (dict_for_key malformed_type_key) ''Start'' = Inr 2 \<and>
   int_of_field (dict_for_key malformed_type_key) ''Type'' = Inl ValueError"
  by code_simp


text \<open>
  C2, as the code has it.  \<open>get_services\<close> raises nothing when the \<open>Start\<close> and the
  \<open>Type\<close> of every service key are missing or integer literals, and the \<open>Type\<close> of
  every key with \<open>Start\<close> 0, 1 or 2 is missing or one of the listed codes.  A missing
  \<open>Start\<close> or \<open>Type\<close> is read as -1: a key with no \<open>Start\<close> gives no record, and the
  record of a key with no \<open>Type\<close> has the service kind \<open>Unknown\<close>.  A \<open>Start\<close> or a
  \<open>Type\<close> that is not an integer literal makes \<open>parse_service_key\<close> raise
  \<^verbatim>\<open>ValueError\<close>; a list of keys that holds such a key never gives a list of services, and
  when the keys before it raise nothing the \<^verbatim>\<open>ValueError\<close> leaves \<open>get_services\<close>, whatever
  keys come after.
\<close>

theorem get_services_numeric_fields:
  "((\<forall>k \<in> set ks. \<exists>s t.
        int_of_field (dict_for_key k) ''Start'' = Inr s \<and>
        int_of_field (dict_for_key k) ''Type'' = Inr t \<and>
        (s \<in> set [0, 1, 2] \<longrightarrow> t \<in> fst ` set service_types))
      \<longrightarrow> (\<exists>rs. get_services pd v ks = Inr rs)) \<and>
   (map_of (dict_for_key k) ''Start'' = None
      \<longrightarrow> int_of_field (dict_for_key k) ''Start'' = Inr (- 1) \<and>
          parse_service_key pd k \<noteq> Inr (Some r)) \<and>
   (map_of (dict_for_key k) ''Type'' = None
      \<longrightarrow> int_of_field (dict_for_key k) ''Type'' = Inr (- 1) \<and>
          (parse_service_key pd k = Inr (Some r) \<longrightarrow> svc_type r = ''Unknown'')) \<and>
   (int_of_field (dict_for_key k) ''Start'' = Inl e \<or>
    int_of_field (dict_for_key k) ''Type'' = Inl e
      \<longrightarrow> parse_service_key pd k = Inl ValueError \<and>
          (k \<in> set ks \<longrightarrow> (\<exists>e'. get_services pd v ks = Inl e')) \<and>
          ((\<forall>k' \<in> set pre. \<exists>p. parse_service_key pd k' = Inr p)
             \<longrightarrow> get_services pd v (pre @ k # post) = Inl ValueError))"
proof -
  have a: "\<exists>rs. get_services pd v ks = Inr rs"
    if wf: "\<forall>k \<in> set ks. \<exists>s t.
        int_of_field (dict_for_key k) ''Start'' = Inr s \<and>
        int_of_field (dict_for_key k) ''Type'' = Inr t \<and>
        (s \<in> set [0, 1, 2] \<longrightarrow> t \<in> fst ` set service_types)"
  proof (rule get_services_total)
    fix k assume "k \<in> set ks"
    then obtain s t where "int_of_field (dict_for_key k) ''Start'' = Inr s"
      "int_of_field (dict_for_key k) ''Type'' = Inr t"
      "s \<in> set [0, 1, 2] \<longrightarrow> t \<in> fst ` set service_types"
      using wf by blast
    then show "\<exists>p. parse_service_key pd k = Inr p" by (rule parse_service_key_total)
  qed
  have b: "int_of_field (dict_for_key k) ''Start'' = Inr (- 1) \<and>
           parse_service_key pd k \<noteq> Inr (Some r)"
    if "map_of (dict_for_key k) ''Start'' = None"
    using that int_of_field_missing parse_service_key_missing_start by blast
  have c: "int_of_field (dict_for_key k) ''Type'' = Inr (- 1) \<and>
           (parse_service_key pd k = Inr (Some r) \<longrightarrow> svc_type r = ''Unknown'')"
    if "map_of (dict_for_key k) ''Type'' = None"
    using that int_of_field_missing parse_service_key_missing_type by blast
  have d: "parse_service_key pd k = Inl ValueError \<and>
          (k \<in> set ks \<longrightarrow> (\<exists>e'. get_services pd v ks = Inl e')) \<and>
          ((\<forall>k' \<in> set pre. \<exists>p. parse_service_key pd k' = Inr p)
             \<longrightarrow> get_services pd v (pre @ k # post) = Inl ValueError)"
    if m: "int_of_field (dict_for_key k) ''Start'' = Inl e \<or>
           int_of_field (dict_for_key k) ''Type'' = Inl e"
  proof -
    have p: "parse_service_key pd k = Inl ValueError"
      using m by (rule parse_service_key_malformed)
    show ?thesis
      using p get_services_member_raises [OF _ p, of ks v]
        get_services_append_raises [OF _ p, of pre v post]
      by blast
  qed
  show ?thesis using a b c d by blast
qed

theorem get_services_numeric_fields_witness:
  "map_of (dict_for_key no_start_key) ''Start'' = None \<and>
   map_of (dict_for_key no_type_key) ''Type'' = None \<and>
   parse_service_key [] no_start_key = Inr None \<and>
   get_services [] True [no_start_key, no_type_key] =
     Inr [\<lparr>svc_name = ''NoType'', svc_timestamp = 100, svc_display_name = ''Unknown'',
       svc_startup = ''Auto Start'', svc_type = ''Unknown'',
       svc_image_path = spooler_path, svc_entry = None, svc_pids = []\<rparr>] \<and>
   int_of_field (dict_for_key malformed_type_key) ''Type'' = Inl ValueError \<and>
   parse_service_key [] spooler_key = Inr (Some spooler_record) \<and>
   get_services [] True ([spooler_key] @ malformed_type_key # [spooler_key]) = Inl ValueError"
proof -
  have wf: "\<forall>k \<in> set [no_start_key, no_type_key]. \<exists>s t.
        int_of_field (dict_for_key k) ''Start'' = Inr s \<and>
        int_of_field (dict_for_key k) ''Type'' = Inr t \<and>
        (s \<in> set [0, 1, 2] \<longrightarrow> t \<in> fst ` set service_types)"
    using no_type_key_fields no_start_key_fields unknown_in_service_types by simp
  have "\<exists>rs. get_services [] True [no_start_key, no_type_key] = Inr rs"
    using get_services_numeric_fields [of "[no_start_key, no_type_key]" "[]" True] wf by blast
  then have first: "get_services [] True [no_start_key, no_type_key] =
     Inr [\<lparr>svc_name = ''NoType'', svc_timestamp = 100, svc_display_name = ''Unknown'',
       svc_startup = ''Auto Start'', svc_type = ''Unknown'',
       svc_image_path = spooler_path, svc_entry = None, svc_pids = []\<rparr>]"
    by (simp add: no_type_key_parse no_start_key_parse)
  have bad: "int_of_field (dict_for_key malformed_type_key) ''Start'' = Inl ValueError \<or>
             int_of_field (dict_for_key malformed_type_key) ''Type'' = Inl ValueError"
    using malformed_key_fields by simp
  have pre: "\<forall>k' \<in> set [spooler_key]. \<exists>p. parse_service_key [] k' = Inr p"
    by (simp add: spooler_key_parse)
  have "get_services [] True ([spooler_key] @ malformed_type_key # [spooler_key]) = Inl ValueError"
    using get_services_numeric_fields
            [where k = malformed_type_key and e = ValueError and pd = "[]" and v = True
               and pre = "[spooler_key]" and post = "[spooler_key]"]
          bad pre
    by blast
  then show ?thesis
    using first no_type_key_fields no_start_key_fields no_start_key_parse malformed_key_fields
      spooler_key_parse
    by simp
qed


text \<open>
  C2, as stated, fails: a \<open>Start\<close> that is the string \<open>auto\<close>, or a \<open>Type\<close> that is the
  string \<open>kernel\<close>, raises \<^verbatim>\<open>ValueError\<close> out of \<open>get_services\<close>, and the service after
  it, which alone is listed, is not processed.
\<close>

theorem get_services_malformed_start_raises:
  "get_services [] True [malformed_key, spooler_key] = Inl ValueError \<and>
   get_services [] True [malformed_type_key, spooler_key] = Inl ValueError \<and>
   get_services [] True [spooler_key] = Inr [spooler_record]"
proof -
  have "parse_service_key [] malformed_key = Inl ValueError" by code_simp
  moreover have "parse_service_key [] malformed_type_key = Inl ValueError" by code_simp
  ultimately show ?thesis by (simp add: spooler_key_parse)
qed

lemma dict_for_key_without_subkeys:
  "dict_for_key (RegKey (key_name k) (LastWriteTime k) (key_values k) []) = dict_for_key k"
  by (simp add: dict_for_key_def)

lemma service_record_without_subkeys:
  "service_record pd (RegKey (key_name k) (LastWriteTime k) (key_values k) []) slab tlab =
     \<lparr>svc_name = key_name k, svc_timestamp = LastWriteTime k,
      svc_display_name = str_replace [NUL] [] (dict_get (dict_for_key k) ''DisplayName'' ''Unknown''),
      svc_startup = slab, svc_type = tlab,
      svc_image_path = str_replace [NUL] [] (dict_get (dict_for_key k) ''ImagePath'' ''Unknown''),
      svc_entry = None,
      svc_pids = find_pids_for_imagepath pd
                   (str_replace [NUL] [] (dict_get (dict_for_key k) ''ImagePath'' ''Unknown''))\<rparr>"
  by (simp add: service_record_def Let_def dict_for_key_without_subkeys svchost_parameters_def
      service_dll_entry_def)

lemma service_dll_entry_None: "service_dll_entry None = None"
  by (simp add: service_dll_entry_def)

lemma service_dll_entry_Some:
  "service_dll_entry (Some ps) =
     (case map_of ps ''ServiceDll'' of
        None \<Rightarrow> None
      | Some dll \<Rightarrow>
          Some (str_replace [NUL] []
                  (dll @ (case map_of ps ''ServiceMain'' of
                            None \<Rightarrow> []
                          | Some m \<Rightarrow> if m = [] then [] else '' ('' @ m @ '')''))))"
  by (cases ps) (auto simp: service_dll_entry_def Let_def split: option.splits)

lemma service_record_fields:
  "svc_name (service_record pd k slab tlab) = key_name k \<and>
   svc_display_name (service_record pd k slab tlab) =
     str_replace [NUL] [] (dict_get (dict_for_key k) ''DisplayName'' ''Unknown'') \<and>
   svc_startup (service_record pd k slab tlab) = slab \<and>
   svc_type (service_record pd k slab tlab) = tlab \<and>
   svc_image_path (service_record pd k slab tlab) =
     str_replace [NUL] [] (dict_get (dict_for_key k) ''ImagePath'' ''Unknown'')"
  by (simp add: service_record_def Let_def)

lemma service_record_svchost:
  assumes "str_in ''svchost.exe -k'' (str_replace [NUL] [] (dict_get (dict_for_key k) ''ImagePath'' ''Unknown''))"
  shows "(case find (\<lambda>sub. key_name sub = ''Parameters'') (key_subkeys k) of
        None \<Rightarrow>
          svc_timestamp (service_record pd k slab tlab) = LastWriteTime k \<and>
          svc_entry (service_record pd k slab tlab) = None \<and>
          svc_pids (service_record pd k slab tlab) =
            find_pids_for_imagepath pd (svc_image_path (service_record pd k slab tlab))
      | Some sub \<Rightarrow>
          svc_timestamp (service_record pd k slab tlab) = LastWriteTime sub \<and>
          svc_entry (service_record pd k slab tlab) = service_dll_entry (Some (dict_for_key sub)) \<and>
          svc_pids (service_record pd k slab tlab) =
            (if service_dll_entry (Some (dict_for_key sub)) \<noteq> None \<and>
                service_dll_entry (Some (dict_for_key sub)) \<noteq> Some []
             then find_pids_for_imagepath pd (dict_get (dict_for_key sub) ''ServiceDll'' [])
             else find_pids_for_imagepath pd (svc_image_path (service_record pd k slab tlab))))"
  using assms
  by (simp add: service_record_def Let_def svchost_parameters_def service_dll_entry_None
      split: option.splits)


lemma svchost_path_marker: "str_in ''svchost.exe -k'' svchost_path"
  by code_simp

lemma svchost_no_dll_key_parse:
  "parse_service_key [] svchost_no_dll_key =
     Inr (Some \<lparr>svc_name = ''Host'', svc_timestamp = 200, svc_display_name = ''Unknown'',
       svc_startup = ''Auto Start'', svc_type = ''Share_Process'',
       svc_image_path = svchost_path, svc_entry = None, svc_pids = []\<rparr>)"
  by code_simp

lemma svchost_no_dll_key_parameters:
  "key_subkeys svchost_no_dll_key = [RegKey ''Parameters'' 200 [RegValue ''Other'' (REG_DWORD 1)] []] \<and>
   map_of (dict_for_key (RegKey ''Parameters'' 200 [RegValue ''Other'' (REG_DWORD 1)] [])) ''ServiceDll'' = None \<and>
   LastWriteTime svchost_no_dll_key = 100"
  by code_simp


lemma svchost_dll_key_parse_inventory:
  "parse_service_key c7_inventory svchost_dll_key =
     Inr (Some \<lparr>svc_name = ''Host'', svc_timestamp = 200, svc_display_name = ''Unknown'',
       svc_startup = ''Auto Start'', svc_type = ''Share_Process'',
       svc_image_path = svchost_path, svc_entry = Some ''themes.dll (Main)'', svc_pids = [900]\<rparr>)"
  by code_simp

lemma svchost_dll_key_bare_parse_inventory:
  "parse_service_key c7_inventory
     (RegKey (key_name svchost_dll_key) (LastWriteTime svchost_dll_key)
        (key_values svchost_dll_key) []) =
     Inr (Some \<lparr>svc_name = ''Host'', svc_timestamp = 100, svc_display_name = ''Unknown'',
       svc_startup = ''Auto Start'', svc_type = ''Share_Process'',
       svc_image_path = svchost_path, svc_entry = None, svc_pids = [800]\<rparr>)"
  by code_simp

text \<open>
  C7, as the code has it.  For a service that is listed and whose image path has the
  marker \<open>svchost.exe -k\<close>, compared with the same key without its sub-keys: the service
  name, display name, startup kind, service kind and image path are the same.  The time
  stamp is that of the first sub-key named \<open>Parameters\<close> whenever there is one, whether
  or not it defines \<open>ServiceDll\<close>, and that of the service key otherwise.  The process
  ids are those found for the \<open>ServiceDll\<close> value exactly when \<open>Parameters\<close> defines it
  and the loaded entry (the value, with the \<open>ServiceMain\<close> annotation when there is one,
  NUL bytes removed) is not empty; otherwise they are those found for the image path.
\<close>

theorem svchost_parameters_frame:
  assumes p: "parse_service_key pd k = Inr (Some r)"
    and m: "str_in ''svchost.exe -k'' (svc_image_path r)"
  shows "\<exists>r0.
      parse_service_key pd (RegKey (key_name k) (LastWriteTime k) (key_values k) []) = Inr (Some r0) \<and>
      svc_name r = svc_name r0 \<and> svc_display_name r = svc_display_name r0 \<and>
      svc_startup r = svc_startup r0 \<and> svc_type r = svc_type r0 \<and>
      svc_image_path r = svc_image_path r0 \<and>
      svc_timestamp r0 = LastWriteTime k \<and>
      svc_pids r0 = find_pids_for_imagepath pd (svc_image_path r) \<and>
      (case find (\<lambda>sub. key_name sub = ''Parameters'') (key_subkeys k) of
         None \<Rightarrow>
           svc_timestamp r = LastWriteTime k \<and> svc_entry r = None \<and> svc_pids r = svc_pids r0
       | Some sub \<Rightarrow>
           svc_timestamp r = LastWriteTime sub \<and>
           (case map_of (dict_for_key sub) ''ServiceDll'' of
              None \<Rightarrow> svc_entry r = None \<and> svc_pids r = svc_pids r0
            | Some dll \<Rightarrow>
                svc_entry r =
                  Some (str_replace [NUL] []
                          (dll @ (case map_of (dict_for_key sub) ''ServiceMain'' of
                                    None \<Rightarrow> []
                                  | Some main \<Rightarrow>
                                      if main = [] then [] else '' ('' @ main @ '')''))) \<and>
                svc_pids r =
                  (if svc_entry r = Some [] then svc_pids r0
                   else find_pids_for_imagepath pd dll)))"
proof -
  let ?bare = "RegKey (key_name k) (LastWriteTime k) (key_values k) []"
  from parse_service_key_Some_D [OF p] obtain s t slab tlab where
    s: "int_of_field (dict_for_key k) ''Start'' = Inr s"
    and t: "int_of_field (dict_for_key k) ''Type'' = Inr t"
    and auto: "s \<in> set [0, 1, 2]"
    and sl: "map_of service_startup s = Some slab"
    and tl: "map_of service_types t = Some tlab"
    and r: "r = service_record pd k slab tlab"
    by blast
  let ?r0 = "service_record pd ?bare slab tlab"
  have d: "dict_for_key ?bare = dict_for_key k" by (rule dict_for_key_without_subkeys)
  have p0: "parse_service_key pd ?bare = Inr (Some ?r0)"
    by (rule parse_service_key_auto_eq [OF _ _ auto sl tl]) (simp_all only: d s t)
  have r0: "?r0 =
     \<lparr>svc_name = key_name k, svc_timestamp = LastWriteTime k,
      svc_display_name = str_replace [NUL] [] (dict_get (dict_for_key k) ''DisplayName'' ''Unknown''),
      svc_startup = slab, svc_type = tlab,
      svc_image_path = str_replace [NUL] [] (dict_get (dict_for_key k) ''ImagePath'' ''Unknown''),
      svc_entry = None,
      svc_pids = find_pids_for_imagepath pd
                   (str_replace [NUL] [] (dict_get (dict_for_key k) ''ImagePath'' ''Unknown''))\<rparr>"
    by (rule service_record_without_subkeys)
  note f = service_record_fields [of pd k slab tlab]
  have ip: "svc_image_path r = str_replace [NUL] [] (dict_get (dict_for_key k) ''ImagePath'' ''Unknown'')"
    using f r by simp
  have m': "str_in ''svchost.exe -k''
              (str_replace [NUL] [] (dict_get (dict_for_key k) ''ImagePath'' ''Unknown''))"
    using m ip by simp
  note sv = service_record_svchost [OF m', of pd slab tlab]
  have frame: "svc_name r = svc_name ?r0 \<and> svc_display_name r = svc_display_name ?r0 \<and>
      svc_startup r = svc_startup ?r0 \<and> svc_type r = svc_type ?r0 \<and>
      svc_image_path r = svc_image_path ?r0 \<and>
      svc_timestamp ?r0 = LastWriteTime k \<and>
      svc_pids ?r0 = find_pids_for_imagepath pd (svc_image_path r)"
    unfolding r0 using f r by simp
  have rest: "(case find (\<lambda>sub. key_name sub = ''Parameters'') (key_subkeys k) of
         None \<Rightarrow>
           svc_timestamp r = LastWriteTime k \<and> svc_entry r = None \<and> svc_pids r = svc_pids ?r0
       | Some sub \<Rightarrow>
           svc_timestamp r = LastWriteTime sub \<and>
           (case map_of (dict_for_key sub) ''ServiceDll'' of
              None \<Rightarrow> svc_entry r = None \<and> svc_pids r = svc_pids ?r0
            | Some dll \<Rightarrow>
                svc_entry r =
                  Some (str_replace [NUL] []
                          (dll @ (case map_of (dict_for_key sub) ''ServiceMain'' of
                                    None \<Rightarrow> []
                                  | Some main \<Rightarrow>
                                      if main = [] then [] else '' ('' @ main @ '')''))) \<and>
                svc_pids r =
                  (if svc_entry r = Some [] then svc_pids ?r0
                   else find_pids_for_imagepath pd dll)))"
  proof (cases "find (\<lambda>sub. key_name sub = ''Parameters'') (key_subkeys k)")
    case None
    then show ?thesis using sv f unfolding r0 r by simp
  next
    case (Some sub)
    show ?thesis
    proof (cases "map_of (dict_for_key sub) ''ServiceDll''")
      case None
      then show ?thesis
        using sv f Some unfolding r0 r by (simp add: service_dll_entry_Some)
    next
      case dll: (Some dll)
      then show ?thesis
        using sv f Some unfolding r0 r by (simp add: service_dll_entry_Some dict_get_def)
    qed
  qed
  show ?thesis using p0 frame rest by blast
qed

theorem svchost_parameters_frame_witness:
  "parse_service_key c7_inventory svchost_dll_key =
     Inr (Some \<lparr>svc_name = ''Host'', svc_timestamp = 200, svc_display_name = ''Unknown'',
       svc_startup = ''Auto Start'', svc_type = ''Share_Process'',
       svc_image_path = svchost_path, svc_entry = Some ''themes.dll (Main)'', svc_pids = [900]\<rparr>) \<and>
   str_in ''svchost.exe -k'' svchost_path \<and>
   parse_service_key c7_inventory
     (RegKey (key_name svchost_dll_key) (LastWriteTime svchost_dll_key)
        (key_values svchost_dll_key) []) =
     Inr (Some \<lparr>svc_name = ''Host'', svc_timestamp = 100, svc_display_name = ''Unknown'',
       svc_startup = ''Auto Start'', svc_type = ''Share_Process'',
       svc_image_path = svchost_path, svc_entry = None, svc_pids = [800]\<rparr>)"
proof -
  let ?r = "\<lparr>svc_name = ''Host'', svc_timestamp = 200, svc_display_name = ''Unknown'',
       svc_startup = ''Auto Start'', svc_type = ''Share_Process'',
       svc_image_path = svchost_path, svc_entry = Some ''themes.dll (Main)'', svc_pids = [900]\<rparr>"
  have m: "str_in ''svchost.exe -k'' (svc_image_path ?r)"
    using svchost_path_marker by simp
  from svchost_parameters_frame [OF svchost_dll_key_parse_inventory m]
  obtain r0 where r0: "parse_service_key c7_inventory
           (RegKey (key_name svchost_dll_key) (LastWriteTime svchost_dll_key)
              (key_values svchost_dll_key) []) = Inr (Some r0)"
    by blast
  show ?thesis
    using r0 svchost_dll_key_parse_inventory svchost_path_marker svchost_dll_key_bare_parse_inventory
    by simp
qed

text \<open>
  C7, as stated, fails: with a \<open>Parameters\<close> sub-key that does not define
  \<open>ServiceDll\<close>, the time stamp of the record is still the sub-key's (200), not the
  service key's (100).
\<close>

theorem svchost_timestamp_without_service_dll:
  "parse_service_key [] svchost_no_dll_key =
     Inr (Some \<lparr>svc_name = ''Host'', svc_timestamp = 200, svc_display_name = ''Unknown'',
       svc_startup = ''Auto Start'', svc_type = ''Share_Process'',
       svc_image_path = svchost_path, svc_entry = None, svc_pids = []\<rparr>) \<and>
   key_subkeys svchost_no_dll_key = [RegKey ''Parameters'' 200 [RegValue ''Other'' (REG_DWORD 1)] []] \<and>
   map_of (dict_for_key (RegKey ''Parameters'' 200 [RegValue ''Other'' (REG_DWORD 1)] [])) ''ServiceDll'' = None \<and>
   LastWriteTime svchost_no_dll_key = 100"
  using svchost_no_dll_key_parse svchost_no_dll_key_parameters by simp


subsection \<open>Winlogon notification packages\<close>








lemma notify_no_name_key_parse:
  "parse_winlogon_registration_key [] notify_no_name_key = Inl UnboundLocalError"
  by code_simp





end
